theory Spec2Isabelle
  imports Complex_Main
begin

section \<open>Python values and exceptions\<close>

text \<open>
  The values that reach \<^verbatim>\<open>Slits\<close> as a size or as the nominal aperture: \<^verbatim>\<open>None\<close>,
  a number (an \<^verbatim>\<open>int\<close> or a \<^verbatim>\<open>float\<close>, the latter read as a real number) or a tuple.
\<close>

datatype pyval = PyNone | PyInt int | PyFloat real | PyTuple "pyval list"

datatype exn =
    TypeError
  | ValueError
  | IndexError
  | ZeroDivisionError
  | KeyboardInterrupt
  | InterruptedError
  | OtherError string

text \<open>Truthiness, as the operator \<^verbatim>\<open>or\<close> and \<^verbatim>\<open>if\<close> test it.\<close>

fun truthy :: "pyval \<Rightarrow> bool" where
  "truthy PyNone = False"
| "truthy (PyInt i) = (i \<noteq> 0)"
| "truthy (PyFloat r) = (r \<noteq> 0)"
| "truthy (PyTuple xs) = (xs \<noteq> [])"

text \<open>The numeric value of a Python number; \<^verbatim>\<open>None\<close> and tuples have none.\<close>

fun py_num :: "pyval \<Rightarrow> real option" where
  "py_num (PyInt i) = Some (real_of_int i)"
| "py_num (PyFloat r) = Some r"
| "py_num PyNone = None"
| "py_num (PyTuple xs) = None"

text \<open>\<^verbatim>\<open>v[idx]\<close> for an index \<^verbatim>\<open>idx >= 0\<close>: only a tuple can be indexed, and only in range.\<close>

fun py_getitem :: "pyval \<Rightarrow> nat \<Rightarrow> exn + pyval" where
  "py_getitem (PyTuple xs) idx = (if idx < length xs then Inr (xs ! idx) else Inl IndexError)"
| "py_getitem PyNone idx = Inl TypeError"
| "py_getitem (PyInt i) idx = Inl TypeError"
| "py_getitem (PyFloat r) idx = Inl TypeError"

text \<open>\<^verbatim>\<open>n > c\<close> where \<^verbatim>\<open>c\<close> is a float: a number compares, anything else raises.\<close>

definition py_gt :: "pyval \<Rightarrow> real \<Rightarrow> exn + bool" where
  "py_gt n c = (case py_num n of None \<Rightarrow> Inl TypeError | Some r \<Rightarrow> Inr (r > c))"

text \<open>\<^verbatim>\<open>c / n\<close> where \<^verbatim>\<open>c\<close> is a float: true division, which raises on a zero divisor.\<close>

definition py_truediv :: "real \<Rightarrow> pyval \<Rightarrow> exn + real" where
  "py_truediv c n =
     (case py_num n of
        None \<Rightarrow> Inl TypeError
      | Some r \<Rightarrow> if r = 0 then Inl ZeroDivisionError else Inr (c / r))"

text \<open>\<^verbatim>\<open>min([a, b])\<close>: the first of the smallest items.\<close>

definition py_min2 :: "real \<Rightarrow> real \<Rightarrow> real" where
  "py_min2 a b = (if b < a then b else a)"

text \<open>
  \<^verbatim>\<open>np.argmin\<close> on a one-dimensional sequence: the index of the first occurrence of the
  minimum; an empty sequence raises.
\<close>

fun argmin_from :: "real \<Rightarrow> nat \<Rightarrow> nat \<Rightarrow> real list \<Rightarrow> nat" where
  "argmin_from best besti i [] = besti"
| "argmin_from best besti i (x # xs) =
     (if x < best then argmin_from x i (Suc i) xs else argmin_from best besti (Suc i) xs)"

definition np_argmin :: "real list \<Rightarrow> exn + nat" where
  "np_argmin xs = (case xs of [] \<Rightarrow> Inl ValueError | x # rest \<Rightarrow> Inr (argmin_from x 0 1 rest))"

section \<open>The slit axes and their process variables\<close>

datatype slit_axis = XCENTER | XWIDTH | YCENTER | YWIDTH

text \<open>The \<^verbatim>\<open>slit_type\<close> keyword each component of \<^verbatim>\<open>Slits\<close> is built with.\<close>

fun slit_type :: "slit_axis \<Rightarrow> string" where
  "slit_type XCENTER = ''XCENTER''"
| "slit_type XWIDTH = ''XWIDTH''"
| "slit_type YCENTER = ''YCENTER''"
| "slit_type YWIDTH = ''YWIDTH''"

text \<open>\<^verbatim>\<open>SlitPositioner.__init__\<close>: the two private name fragments.\<close>

definition dirlong :: "string \<Rightarrow> string" where
  "dirlong st = st"

definition dirshort :: "string \<Rightarrow> string" where
  "dirshort st = take 4 st"

text \<open>
  The formatted components \<^verbatim>\<open>"{self.prefix}:{self._dirshort}_REQ"\<close> and
  \<^verbatim>\<open>"{self.prefix}:ACTUAL_{self._dirlong}"\<close>, and the plain component \<^verbatim>\<open>":DMOV"\<close>,
  whose suffix is appended to the prefix.
\<close>

definition setpoint_pv :: "string \<Rightarrow> string \<Rightarrow> string" where
  "setpoint_pv prefix st = prefix @ '':'' @ dirshort st @ ''_REQ''"

definition readback_pv :: "string \<Rightarrow> string \<Rightarrow> string" where
  "readback_pv prefix st = prefix @ '':ACTUAL_'' @ dirlong st"

definition done_pv :: "string \<Rightarrow> string \<Rightarrow> string" where
  "done_pv prefix st = prefix @ '':DMOV''"

section \<open>The composite device\<close>

type_synonym callback = nat

datatype listener = Aperture_changed

text \<open>
  The state of a \<^verbatim>\<open>Slits\<close> object the methods below read and write: the configured
  nominal aperture, the positions the two width axes report, the flag of
  \<^verbatim>\<open>subscribe\<close>, the listeners attached to the two width readbacks (each with the
  \<^verbatim>\<open>run\<close> flag it was attached with) and the callbacks clients registered on the
  device, each under its event type.
\<close>

record slits =
  nominal_aperture :: pyval
  xwidth_position :: real
  ywidth_position :: real
  has_subscribed :: bool
  xwidth_readback_subs :: "(listener \<times> bool) list"
  ywidth_readback_subs :: "(listener \<times> bool) list"
  subs :: "(string \<times> callback) list"

definition SUB_STATE :: string where
  "SUB_STATE = ''sub_state_changed''"

text \<open>\<^verbatim>\<open>Slits.__init__\<close>, with its default nominal aperture.\<close>

definition init :: "pyval option \<Rightarrow> real \<Rightarrow> real \<Rightarrow> slits" where
  "init nominal x y =
     \<lparr> nominal_aperture = (case nominal of None \<Rightarrow> PyTuple [PyFloat 5, PyFloat 5] | Some n \<Rightarrow> n),
       xwidth_position = x,
       ywidth_position = y,
       has_subscribed = False,
       xwidth_readback_subs = [],
       ywidth_readback_subs = [],
       subs = [] \<rparr>"

subsection \<open>Aperture, insertion state and transmission\<close>

definition current_aperture :: "slits \<Rightarrow> real list" where
  "current_aperture self = [xwidth_position self, ywidth_position self]"

definition position :: "slits \<Rightarrow> real list" where
  "position self = current_aperture self"

text \<open>One item of the list comprehension of \<^verbatim>\<open>inserted\<close>.\<close>

definition inserted_at :: "slits \<Rightarrow> nat \<Rightarrow> exn + bool" where
  "inserted_at self idx =
     (case py_getitem (nominal_aperture self) idx of
        Inl e \<Rightarrow> Inl e
      | Inr n \<Rightarrow> py_gt n (current_aperture self ! idx))"

text \<open>The comprehension builds the whole list over \<^verbatim>\<open>range(0, 2)\<close> before \<^verbatim>\<open>all\<close> reads it.\<close>

fun comprehension :: "(nat \<Rightarrow> exn + bool) \<Rightarrow> nat list \<Rightarrow> exn + bool list" where
  "comprehension f [] = Inr []"
| "comprehension f (i # is) =
     (case f i of
        Inl e \<Rightarrow> Inl e
      | Inr b \<Rightarrow> (case comprehension f is of Inl e \<Rightarrow> Inl e | Inr bs \<Rightarrow> Inr (b # bs)))"

definition inserted :: "slits \<Rightarrow> exn + bool" where
  "inserted self =
     (case comprehension (inserted_at self) [0, 1] of
        Inl e \<Rightarrow> Inl e
      | Inr bs \<Rightarrow> Inr (list_all (\<lambda>b. b) bs))"

definition removed :: "slits \<Rightarrow> exn + bool" where
  "removed self = (case inserted self of Inl e \<Rightarrow> Inl e | Inr b \<Rightarrow> Inr (\<not> b))"

definition transmission :: "slits \<Rightarrow> exn + real" where
  "transmission self =
     (case np_argmin (current_aperture self) of
        Inl e \<Rightarrow> Inl e
      | Inr min_dim \<Rightarrow>
          (case py_getitem (nominal_aperture self) min_dim of
             Inl e \<Rightarrow> Inl e
           | Inr n \<Rightarrow>
               (case py_truediv (current_aperture self ! min_dim) n of
                  Inl e \<Rightarrow> Inl e
                | Inr q \<Rightarrow> Inr (py_min2 q 1))))"

subsection \<open>Moving the two width axes\<close>

text \<open>
  The status objects of the positioner framework, kept symbolic: the status of one axis
  move (axis, target, timeout) and the combination \<^verbatim>\<open>x_stat & y_stat\<close>. The source
  builds them and waits on them; how they resolve is modelled further down.
\<close>

datatype status = MoveStatus slit_axis pyval pyval | AndStatus status status

text \<open>The calls \<^verbatim>\<open>Slits\<close> makes on its collaborators, in the order it makes them.\<close>

datatype action =
    AxisMove slit_axis pyval pyval
  | AddCallback status callback
  | StatusWait status
  | AxisStop slit_axis

text \<open>
  What the collaborators answer: whether the move of an axis to a target raises, whether
  waiting on a status raises (a timeout, an operator's interrupt), whether stopping an
  axis raises.
\<close>

record env =
  move_raises :: "slit_axis \<Rightarrow> pyval \<Rightarrow> exn option"
  wait_raises :: "status \<Rightarrow> exn option"
  stop_raises :: "slit_axis \<Rightarrow> exn option"

type_synonym 'a io = "action list \<times> (exn + 'a)"

text \<open>Run \<open>m\<close>, then \<open>f\<close> on its result; an exception ends the sequence.\<close>

definition seq :: "'a io \<Rightarrow> ('a \<Rightarrow> 'b io) \<Rightarrow> 'b io" where
  "seq m f =
     (case m of
        (t, Inl e) \<Rightarrow> (t, Inl e)
      | (t, Inr a) \<Rightarrow> (case f a of (t', r) \<Rightarrow> (t @ t', r)))"

definition axis_move :: "env \<Rightarrow> slit_axis \<Rightarrow> pyval \<Rightarrow> pyval \<Rightarrow> status io" where
  "axis_move env ax pos timeout =
     ([AxisMove ax pos timeout],
      case move_raises env ax pos of
        Some e \<Rightarrow> Inl e
      | None \<Rightarrow> Inr (MoveStatus ax pos timeout))"

definition axis_stop :: "env \<Rightarrow> slit_axis \<Rightarrow> unit io" where
  "axis_stop env ax =
     ([AxisStop ax], case stop_raises env ax of Some e \<Rightarrow> Inl e | None \<Rightarrow> Inr ())"

definition status_wait :: "env \<Rightarrow> status \<Rightarrow> unit io" where
  "status_wait env st =
     ([StatusWait st], case wait_raises env st of Some e \<Rightarrow> Inl e | None \<Rightarrow> Inr ())"

definition add_callback :: "status \<Rightarrow> callback option \<Rightarrow> unit io" where
  "add_callback st moved_cb =
     (case moved_cb of None \<Rightarrow> ([], Inr ()) | Some cb \<Rightarrow> ([AddCallback st cb], Inr ()))"

text \<open>\<^verbatim>\<open>isinstance(size, tuple)\<close>.\<close>

fun is_tuple :: "pyval \<Rightarrow> bool" where
  "is_tuple (PyTuple xs) = True"
| "is_tuple v = False"

text \<open>
  The head of \<^verbatim>\<open>move\<close>: a tuple is unpacked into exactly two items (any other length
  raises), anything else serves as both width and height.
\<close>

fun unpack_size :: "pyval \<Rightarrow> exn + pyval \<times> pyval" where
  "unpack_size (PyTuple [width, height]) = Inr (width, height)"
| "unpack_size (PyTuple xs) = Inl ValueError"
| "unpack_size v = Inr (v, v)"

text \<open>
  The tail of \<^verbatim>\<open>move\<close> under \<^verbatim>\<open>if wait\<close>: only \<^verbatim>\<open>KeyboardInterrupt\<close> is caught, both
  axes are stopped and the bare \<^verbatim>\<open>raise\<close> raises it again; an exception of a stop call
  takes its place.
\<close>

definition wait_or_stop :: "env \<Rightarrow> status \<Rightarrow> unit io" where
  "wait_or_stop env st =
     (case status_wait env st of
        (t, Inr u) \<Rightarrow> (t, Inr u)
      | (t, Inl e) \<Rightarrow>
          if e = KeyboardInterrupt
          then seq (t, Inr ())
                 (\<lambda>_. seq (axis_stop env XWIDTH)
                   (\<lambda>_. seq (axis_stop env YWIDTH)
                     (\<lambda>_. ([], Inl e))))
          else (t, Inl e))"

definition move :: "env \<Rightarrow> pyval \<Rightarrow> bool \<Rightarrow> callback option \<Rightarrow> pyval \<Rightarrow> status io" where
  "move env sz wait moved_cb timeout =
     (case unpack_size sz of
        Inl e \<Rightarrow> ([], Inl e)
      | Inr (width, height) \<Rightarrow>
          seq (axis_move env XWIDTH width timeout) (\<lambda>x_stat.
          seq (axis_move env YWIDTH height timeout) (\<lambda>y_stat.
          let st = AndStatus x_stat y_stat in
          seq (add_callback st moved_cb) (\<lambda>_.
          seq (if wait then wait_or_stop env st else ([], Inr ())) (\<lambda>_.
          ([], Inr st))))))"

text \<open>
  \<^verbatim>\<open>remove\<close>; the keyword arguments it forwards can only be \<^verbatim>\<open>moved_cb\<close>.
\<close>

definition remove ::
  "slits \<Rightarrow> env \<Rightarrow> pyval \<Rightarrow> bool \<Rightarrow> pyval \<Rightarrow> callback option \<Rightarrow> status io" where
  "remove self env sz wait timeout kwargs =
     (let sz' = (if truthy sz then sz else nominal_aperture self)
      in move env sz' wait kwargs timeout)"

text \<open>An environment in which no collaborator raises.\<close>

definition quiet :: env where
  "quiet = \<lparr> move_raises = (\<lambda>ax pos. None),
             wait_raises = (\<lambda>st. None),
             stop_raises = (\<lambda>ax. None) \<rparr>"

text \<open>The same, but an operator interrupts every wait.\<close>

definition interrupted :: env where
  "interrupted = quiet \<lparr> wait_raises := (\<lambda>st. Some KeyboardInterrupt) \<rparr>"

text \<open>Every wait raises the built-in \<^verbatim>\<open>InterruptedError\<close> instead.\<close>

definition interrupted_os :: env where
  "interrupted_os = quiet \<lparr> wait_raises := (\<lambda>st. Some InterruptedError) \<rparr>"

text \<open>An operator interrupts every wait, and stopping \<^verbatim>\<open>xwidth\<close> raises.\<close>

definition stop_fails :: env where
  "stop_fails =
     interrupted \<lparr> stop_raises :=
                     (\<lambda>ax. if ax = XWIDTH then Some (OtherError ''stop failed'') else None) \<rparr>"

subsection \<open>Resolution of a status\<close>

text \<open>
  Modelled from the spec: the status class of one axis move and the class behind
  \<^verbatim>\<open>x_stat & y_stat\<close> belong to the positioner framework and are not in the sources.
  The spec gives their contract. The future of an axis move resolves when that axis
  reports completion, once per move, with success or with a failure that carries a
  detail. The joint future is unresolved until both constituents have resolved; it
  then succeeds if both succeeded and otherwise fails, carrying the detail of the
  first failure. The completion reports of the axes are given as a history, in the
  order of their arrival; a status resolves at the position of the report that
  resolves it.
\<close>

datatype outcome = Succeeded | Failed string

type_synonym history = "(slit_axis \<times> outcome) list"

fun first_report :: "slit_axis \<Rightarrow> nat \<Rightarrow> history \<Rightarrow> (nat \<times> outcome) option" where
  "first_report ax i [] = None"
| "first_report ax i ((a, out) # evs) =
     (if a = ax then Some (i, out) else first_report ax (Suc i) evs)"

fun join_outcome :: "nat \<times> outcome \<Rightarrow> nat \<times> outcome \<Rightarrow> outcome" where
  "join_outcome (t1, Succeeded) (t2, Succeeded) = Succeeded"
| "join_outcome (t1, Failed d) (t2, Succeeded) = Failed d"
| "join_outcome (t1, Succeeded) (t2, Failed d) = Failed d"
| "join_outcome (t1, Failed d1) (t2, Failed d2) = (if t1 \<le> t2 then Failed d1 else Failed d2)"

fun resolved_at :: "history \<Rightarrow> status \<Rightarrow> (nat \<times> outcome) option" where
  "resolved_at evs (MoveStatus ax pos timeout) = first_report ax 0 evs"
| "resolved_at evs (AndStatus l r) =
     (case resolved_at evs l of
        None \<Rightarrow> None
      | Some a \<Rightarrow>
          (case resolved_at evs r of
             None \<Rightarrow> None
           | Some b \<Rightarrow> Some (max (fst a) (fst b), join_outcome a b)))"

text \<open>What a status has resolved to after a history; \<open>None\<close> while it is unresolved.\<close>

definition resolution :: "history \<Rightarrow> status \<Rightarrow> outcome option" where
  "resolution evs st = map_option snd (resolved_at evs st)"

subsection \<open>Subscriptions\<close>

text \<open>
  Modelled from the spec: the generic subscription mechanism \<^verbatim>\<open>subscribe\<close> delegates to
  (\<^verbatim>\<open>super().subscribe\<close> and \<^verbatim>\<open>_run_subs\<close> of the device framework) is not in the
  sources. It is an observer list per device: a callback is registered under its event
  type, the default event type being \<^verbatim>\<open>_default_sub = SUB_STATE\<close>, and running the
  subscriptions of an event type invokes the callbacks registered under it, in order.
  The immediate invocation \<^verbatim>\<open>run\<close> asks for is the mechanism's own and is left out.
\<close>

definition generic_subscribe :: "slits \<Rightarrow> callback \<Rightarrow> string option \<Rightarrow> bool \<Rightarrow> slits" where
  "generic_subscribe self cb event_type run =
     self \<lparr> subs := subs self @
               [(case event_type of None \<Rightarrow> SUB_STATE | Some t \<Rightarrow> t, cb)] \<rparr>"

definition run_subs :: "slits \<Rightarrow> string \<Rightarrow> callback list" where
  "run_subs self sub_type = map snd (filter (\<lambda>(t, cb). t = sub_type) (subs self))"

text \<open>\<^verbatim>\<open>Slits.subscribe\<close>.\<close>

definition subscribe :: "slits \<Rightarrow> callback \<Rightarrow> string option \<Rightarrow> bool \<Rightarrow> slits" where
  "subscribe self cb event_type run =
     (let self' =
        (if \<not> has_subscribed self
         then self \<lparr> xwidth_readback_subs :=
                       xwidth_readback_subs self @ [(Aperture_changed, False)],
                     ywidth_readback_subs :=
                       ywidth_readback_subs self @ [(Aperture_changed, False)],
                     has_subscribed := True \<rparr>
         else self)
      in generic_subscribe self' cb event_type run)"

text \<open>\<^verbatim>\<open>Slits._aperture_changed\<close>: the callbacks it runs.\<close>

definition aperture_changed :: "slits \<Rightarrow> callback list" where
  "aperture_changed self = run_subs self SUB_STATE"

text \<open>
  A change of the readback of an axis invokes the listeners attached to it; the centre
  axes get none from \<^verbatim>\<open>Slits\<close>. The result lists the client callbacks invoked.
\<close>

fun readback_subs :: "slits \<Rightarrow> slit_axis \<Rightarrow> (listener \<times> bool) list" where
  "readback_subs self XWIDTH = xwidth_readback_subs self"
| "readback_subs self YWIDTH = ywidth_readback_subs self"
| "readback_subs self XCENTER = []"
| "readback_subs self YCENTER = []"

definition readback_changed :: "slits \<Rightarrow> slit_axis \<Rightarrow> callback list" where
  "readback_changed self ax =
     concat (map (\<lambda>(l, run). case l of Aperture_changed \<Rightarrow> aperture_changed self)
                 (readback_subs self ax))"

text \<open>A sequence of calls of \<^verbatim>\<open>subscribe\<close>, each with its three arguments.\<close>

fun subscribe_all :: "slits \<Rightarrow> (callback \<times> string option \<times> bool) list \<Rightarrow> slits" where
  "subscribe_all self [] = self"
| "subscribe_all self ((cb, event_type, run) # calls) =
     subscribe_all (subscribe self cb event_type run) calls"

text \<open>The callbacks of a sequence of calls that were registered for the state event.\<close>

definition state_callbacks :: "(callback \<times> string option \<times> bool) list \<Rightarrow> callback list" where
  "state_callbacks calls =
     map fst (filter (\<lambda>(cb, event_type, run).
                        event_type = None \<or> event_type = Some SUB_STATE) calls)"

section \<open>Insertion state and transmission\<close>

lemma np_argmin_pair: "np_argmin [cw, ch] = Inr (if ch < cw then 1 else 0)"
  by (simp add: np_argmin_def)

lemma transmission_pair:
  assumes "nominal_aperture self = PyTuple [a, b]"
  shows "transmission self =
           (if ywidth_position self < xwidth_position self
            then (case py_truediv (ywidth_position self) b of
                    Inl e \<Rightarrow> Inl e | Inr q \<Rightarrow> Inr (py_min2 q 1))
            else (case py_truediv (xwidth_position self) a of
                    Inl e \<Rightarrow> Inl e | Inr q \<Rightarrow> Inr (py_min2 q 1)))"
  using assms by (simp add: transmission_def current_aperture_def np_argmin_pair)

lemma inserted_pair:
  assumes "nominal_aperture self = PyTuple [a, b]"
    and "py_num a = Some nw" and "py_num b = Some nh"
  shows "inserted self = Inr (xwidth_position self < nw \<and> ywidth_position self < nh)"
  using assms
  by (simp add: inserted_def inserted_at_def current_aperture_def py_gt_def)

text \<open>
  C1. With a nominal aperture \<open>(nw, nh)\<close> and a current aperture whose components are all
  positive, \<^verbatim>\<open>transmission\<close> returns \<open>min (C[i] / N[i]) 1\<close>, where \<open>i\<close> is the index
  \<^verbatim>\<open>np.argmin\<close> finds in the current aperture alone (the height only when it is strictly
  the smaller), and the value lies between 0 and 1 also when \<open>C[i] > N[i]\<close>. Floats are
  read as real numbers.
\<close>

theorem transmission_argmin_clamped:
  assumes "nominal_aperture self = PyTuple [a, b]"
    and "py_num a = Some nw" and "py_num b = Some nh"
    and "0 < nw" and "0 < nh"
    and "0 < xwidth_position self" and "0 < ywidth_position self"
  shows "let C = current_aperture self;
             i = (if C ! 1 < C ! 0 then 1 else 0);
             t = min (C ! i / [nw, nh] ! i) 1
         in np_argmin C = Inr i \<and> transmission self = Inr t \<and> 0 \<le> t \<and> t \<le> 1"
  using assms
  by (simp add: transmission_pair py_truediv_def py_min2_def current_aperture_def
      np_argmin_pair Let_def min_def)

theorem transmission_argmin_clamped_witness:
  "nominal_aperture (init None 6 2) = PyTuple [PyFloat 5, PyFloat 5]
   \<and> py_num (PyFloat 5) = Some 5 \<and> (0::real) < 5
   \<and> 0 < xwidth_position (init None 6 2) \<and> 0 < ywidth_position (init None 6 2)
   \<and> np_argmin (current_aperture (init None 6 2)) = Inr 1
   \<and> transmission (init None 6 2) = Inr (2 / 5)"
  using transmission_argmin_clamped [of "init None 6 2" "PyFloat 5" "PyFloat 5" 5 5]
  by (simp add: init_def current_aperture_def Let_def)

text \<open>
  C2. With a nominal aperture \<open>(nw, nh)\<close> and a current aperture \<open>(cw, ch)\<close>,
  \<^verbatim>\<open>inserted\<close> is true exactly when \<open>cw < nw\<close> and \<open>ch < nh\<close>, and \<^verbatim>\<open>removed\<close> is its
  negation. The bound \<open>cw, ch \<ge> 0\<close> of the claim is not needed.
\<close>

theorem inserted_iff_both_smaller:
  assumes "nominal_aperture self = PyTuple [a, b]"
    and "py_num a = Some nw" and "py_num b = Some nh"
  shows "inserted self = Inr (xwidth_position self < nw \<and> ywidth_position self < nh)
         \<and> removed self = Inr (\<not> (xwidth_position self < nw \<and> ywidth_position self < nh))"
  using assms by (simp add: removed_def inserted_pair)

theorem inserted_iff_both_smaller_witness:
  "nominal_aperture (init None 2 6) = PyTuple [PyFloat 5, PyFloat 5]
   \<and> py_num (PyFloat 5) = Some 5
   \<and> inserted (init None 2 6) = Inr False \<and> removed (init None 2 6) = Inr True"
  using inserted_iff_both_smaller [of "init None 2 6" "PyFloat 5" "PyFloat 5" 5 5]
  by (simp add: init_def)

text \<open>
  C10. The division of \<^verbatim>\<open>transmission\<close> has no guard: when the nominal component at the
  index of the smaller current value is zero (the integer or the float), reading the
  property raises \<^verbatim>\<open>ZeroDivisionError\<close> and returns no value.
\<close>

theorem transmission_zero_nominal_raises:
  assumes "nominal_aperture self = PyTuple [a, b]"
    and "py_num (if ywidth_position self < xwidth_position self then b else a) = Some 0"
  shows "transmission self = Inl ZeroDivisionError"
  using assms by (simp add: transmission_pair py_truediv_def split: if_splits)

theorem transmission_zero_nominal_raises_witness:
  "nominal_aperture (init (Some (PyTuple [PyFloat 5, PyInt 0])) 3 2) = PyTuple [PyFloat 5, PyInt 0]
   \<and> py_num (if ywidth_position (init (Some (PyTuple [PyFloat 5, PyInt 0])) 3 2)
                < xwidth_position (init (Some (PyTuple [PyFloat 5, PyInt 0])) 3 2)
             then PyInt 0 else PyFloat 5) = Some 0
   \<and> transmission (init (Some (PyTuple [PyFloat 5, PyInt 0])) 3 2) = Inl ZeroDivisionError"
  using transmission_zero_nominal_raises
    [of "init (Some (PyTuple [PyFloat 5, PyInt 0])) 3 2" "PyFloat 5" "PyInt 0"]
  by (simp add: init_def)

section \<open>Process-variable names\<close>

text \<open>
  C8. For each of the four axis kinds the setpoint name is built from the first four
  characters of the tag and the readback name from the whole tag.
\<close>

theorem pv_names_follow_convention:
  "setpoint_pv prefix (slit_type ax) = prefix @ '':'' @ take 4 (slit_type ax) @ ''_REQ''
   \<and> readback_pv prefix (slit_type ax) = prefix @ '':ACTUAL_'' @ slit_type ax
   \<and> length (dirshort (slit_type ax)) = 4
   \<and> setpoint_pv prefix (slit_type ax) =
       prefix @ (case ax of XCENTER \<Rightarrow> '':XCEN_REQ'' | XWIDTH \<Rightarrow> '':XWID_REQ''
                          | YCENTER \<Rightarrow> '':YCEN_REQ'' | YWIDTH \<Rightarrow> '':YWID_REQ'')
   \<and> readback_pv prefix (slit_type ax) =
       prefix @ (case ax of XCENTER \<Rightarrow> '':ACTUAL_XCENTER'' | XWIDTH \<Rightarrow> '':ACTUAL_XWIDTH''
                          | YCENTER \<Rightarrow> '':ACTUAL_YCENTER'' | YWIDTH \<Rightarrow> '':ACTUAL_YWIDTH'')"
  by (cases ax) (simp_all add: setpoint_pv_def readback_pv_def dirshort_def dirlong_def)

theorem pv_names_follow_convention_witness:
  "setpoint_pv ''MFX:DG2'' (slit_type XWIDTH) = ''MFX:DG2:XWID_REQ''
   \<and> readback_pv ''MFX:DG2'' (slit_type XWIDTH) = ''MFX:DG2:ACTUAL_XWIDTH''"
  using pv_names_follow_convention [of "''MFX:DG2''" XWIDTH] by simp

section \<open>Moving\<close>

lemma seq_Inr [simp]: "seq (t, Inr a) f = (t @ fst (f a), snd (f a))"
  by (simp add: seq_def split: prod.splits)

lemma seq_Inl [simp]: "seq (t, Inl e) f = (t, Inl e)"
  by (simp add: seq_def)

lemma move_unpacked:
  assumes "unpack_size sz = Inr (w, h)"
    and "move_raises env XWIDTH w = None" and "move_raises env YWIDTH h = None"
  shows "move env sz wait moved_cb timeout =
           (let st = AndStatus (MoveStatus XWIDTH w timeout) (MoveStatus YWIDTH h timeout);
                r = (if wait then wait_or_stop env st else ([], Inr ()))
            in ([AxisMove XWIDTH w timeout, AxisMove YWIDTH h timeout]
                  @ fst (add_callback st moved_cb) @ fst r,
                case snd r of Inl e \<Rightarrow> Inl e | Inr u \<Rightarrow> Inr st))"
  using assms
  by (cases "if wait then wait_or_stop env (AndStatus (MoveStatus XWIDTH w timeout) (MoveStatus YWIDTH h timeout)) else ([], Inr ())")
     (auto simp: move_def axis_move_def add_callback_def Let_def split: option.splits sum.splits)

lemma wait_or_stop_interrupt:
  assumes "wait_raises env st = Some KeyboardInterrupt"
  shows "wait_or_stop env st =
           (case stop_raises env XWIDTH of
              Some e \<Rightarrow> ([StatusWait st, AxisStop XWIDTH], Inl e)
            | None \<Rightarrow>
               (case stop_raises env YWIDTH of
                  Some e \<Rightarrow> ([StatusWait st, AxisStop XWIDTH, AxisStop YWIDTH], Inl e)
                | None \<Rightarrow> ([StatusWait st, AxisStop XWIDTH, AxisStop YWIDTH],
                           Inl KeyboardInterrupt)))"
  using assms
  by (simp add: wait_or_stop_def status_wait_def axis_stop_def split: option.splits)

lemma wait_or_stop_other:
  assumes "wait_raises env st = Some e" and "e \<noteq> KeyboardInterrupt"
  shows "wait_or_stop env st = ([StatusWait st], Inl e)"
  using assms by (simp add: wait_or_stop_def status_wait_def)

lemma wait_or_stop_done:
  assumes "wait_raises env st = None"
  shows "wait_or_stop env st = ([StatusWait st], Inr ())"
  using assms by (simp add: wait_or_stop_def status_wait_def)

text \<open>
  Whenever \<^verbatim>\<open>move\<close> returns, what it returns is the combination \<^verbatim>\<open>x_stat & y_stat\<close> of
  the status of the \<^verbatim>\<open>xwidth\<close> move and the status of the \<^verbatim>\<open>ywidth\<close> move.
\<close>

lemma move_returns_joint_status:
  assumes "snd (move env sz wait moved_cb timeout) = Inr st"
  shows "\<exists>w h. unpack_size sz = Inr (w, h)
               \<and> st = AndStatus (MoveStatus XWIDTH w timeout) (MoveStatus YWIDTH h timeout)"
proof (cases "unpack_size sz")
  case (Inl e)
  with assms show ?thesis
    by (simp add: move_def)
next
  case (Inr p)
  obtain w h where p: "p = (w, h)"
    by (cases p) auto
  from assms Inr p show ?thesis
    by (auto simp: move_def axis_move_def seq_def Let_def
             split: option.splits prod.splits sum.splits if_splits)
qed




text \<open>
  The joint status over some histories: unresolved while one axis alone has reported,
  whether with success or with failure.
\<close>

lemma joint_status_histories:
  "resolution [] (AndStatus (MoveStatus XWIDTH w t) (MoveStatus YWIDTH h t)) = None"
  "resolution [(XWIDTH, Succeeded)] (AndStatus (MoveStatus XWIDTH w t) (MoveStatus YWIDTH h t)) = None"
  "resolution [(YWIDTH, Failed d)] (AndStatus (MoveStatus XWIDTH w t) (MoveStatus YWIDTH h t)) = None"
  "resolution [(XWIDTH, Succeeded), (YWIDTH, Succeeded)]
     (AndStatus (MoveStatus XWIDTH w t) (MoveStatus YWIDTH h t)) = Some Succeeded"
  "resolution [(XWIDTH, Succeeded), (YWIDTH, Failed d)]
     (AndStatus (MoveStatus XWIDTH w t) (MoveStatus YWIDTH h t)) = Some (Failed d)"
  "resolution [(YWIDTH, Failed d), (XWIDTH, Failed d')]
     (AndStatus (MoveStatus XWIDTH w t) (MoveStatus YWIDTH h t)) = Some (Failed d)"
  by (simp_all add: resolution_def)

text \<open>
  C4, as amended. The exception \<^verbatim>\<open>move\<close> catches around the wait is
  \<^verbatim>\<open>KeyboardInterrupt\<close>, the operator's cancel. When the wait of a blocking \<^verbatim>\<open>move\<close>
  raises it, \<^verbatim>\<open>move\<close> invokes stop on \<^verbatim>\<open>xwidth\<close> and, once that call returns, on
  \<^verbatim>\<open>ywidth\<close>; when both stop calls return, the trace ends with the two stops and the
  same \<^verbatim>\<open>KeyboardInterrupt\<close> leaves \<^verbatim>\<open>move\<close>. Any other exception of the wait,
  \<^verbatim>\<open>InterruptedError\<close> among them, leaves \<^verbatim>\<open>move\<close> unchanged with no stop call. In
  every case \<^verbatim>\<open>move\<close> ends in an exception and returns no status.
\<close>

theorem move_interrupt_stops_both_axes:
  assumes "unpack_size sz = Inr (w, h)"
    and "move_raises env XWIDTH w = None" and "move_raises env YWIDTH h = None"
    and "st = AndStatus (MoveStatus XWIDTH w timeout) (MoveStatus YWIDTH h timeout)"
    and "wait_raises env st = Some e"
  shows "isl (snd (move env sz True moved_cb timeout))
         \<and> (e = KeyboardInterrupt \<longrightarrow>
              AxisStop XWIDTH \<in> set (fst (move env sz True moved_cb timeout)))
         \<and> (e = KeyboardInterrupt \<and> stop_raises env XWIDTH = None \<longrightarrow>
              AxisStop YWIDTH \<in> set (fst (move env sz True moved_cb timeout)))
         \<and> (e = KeyboardInterrupt \<and> stop_raises env XWIDTH = None
              \<and> stop_raises env YWIDTH = None \<longrightarrow>
              move env sz True moved_cb timeout =
                ([AxisMove XWIDTH w timeout, AxisMove YWIDTH h timeout]
                   @ fst (add_callback st moved_cb)
                   @ [StatusWait st, AxisStop XWIDTH, AxisStop YWIDTH],
                 Inl KeyboardInterrupt))
         \<and> (e \<noteq> KeyboardInterrupt \<longrightarrow>
              move env sz True moved_cb timeout =
                ([AxisMove XWIDTH w timeout, AxisMove YWIDTH h timeout]
                   @ fst (add_callback st moved_cb) @ [StatusWait st],
                 Inl e))"
proof (cases "e = KeyboardInterrupt")
  case True
  with assms show ?thesis
    by (auto simp: move_unpacked wait_or_stop_interrupt Let_def split: option.splits)
next
  case False
  with assms show ?thesis
    by (simp add: move_unpacked wait_or_stop_other Let_def)
qed

theorem move_interrupt_stops_both_axes_witness:
  "unpack_size (PyTuple [PyFloat 2, PyFloat 3]) = Inr (PyFloat 2, PyFloat 3)
   \<and> move_raises interrupted XWIDTH (PyFloat 2) = None
   \<and> move_raises interrupted YWIDTH (PyFloat 3) = None
   \<and> wait_raises interrupted
        (AndStatus (MoveStatus XWIDTH (PyFloat 2) PyNone) (MoveStatus YWIDTH (PyFloat 3) PyNone))
       = Some KeyboardInterrupt
   \<and> stop_raises interrupted XWIDTH = None \<and> stop_raises interrupted YWIDTH = None
   \<and> move interrupted (PyTuple [PyFloat 2, PyFloat 3]) True None PyNone =
        ([AxisMove XWIDTH (PyFloat 2) PyNone, AxisMove YWIDTH (PyFloat 3) PyNone,
          StatusWait (AndStatus (MoveStatus XWIDTH (PyFloat 2) PyNone)
                                (MoveStatus YWIDTH (PyFloat 3) PyNone)),
          AxisStop XWIDTH, AxisStop YWIDTH],
         Inl KeyboardInterrupt)
   \<and> wait_raises interrupted_os
        (AndStatus (MoveStatus XWIDTH (PyFloat 2) PyNone) (MoveStatus YWIDTH (PyFloat 3) PyNone))
       = Some InterruptedError
   \<and> InterruptedError \<noteq> KeyboardInterrupt
   \<and> move interrupted_os (PyTuple [PyFloat 2, PyFloat 3]) True None PyNone =
        ([AxisMove XWIDTH (PyFloat 2) PyNone, AxisMove YWIDTH (PyFloat 3) PyNone,
          StatusWait (AndStatus (MoveStatus XWIDTH (PyFloat 2) PyNone)
                                (MoveStatus YWIDTH (PyFloat 3) PyNone))],
         Inl InterruptedError)"
  using move_interrupt_stops_both_axes
    [of "PyTuple [PyFloat 2, PyFloat 3]" "PyFloat 2" "PyFloat 3" interrupted
        "AndStatus (MoveStatus XWIDTH (PyFloat 2) PyNone) (MoveStatus YWIDTH (PyFloat 3) PyNone)"
        PyNone KeyboardInterrupt None]
    move_interrupt_stops_both_axes
    [of "PyTuple [PyFloat 2, PyFloat 3]" "PyFloat 2" "PyFloat 3" interrupted_os
        "AndStatus (MoveStatus XWIDTH (PyFloat 2) PyNone) (MoveStatus YWIDTH (PyFloat 3) PyNone)"
        PyNone InterruptedError None]
  by (simp add: interrupted_def interrupted_os_def quiet_def add_callback_def)

text \<open>
  C4 as stated fails twice. When the wait raises \<^verbatim>\<open>InterruptedError\<close>, the exception
  the claim names, neither axis is stopped. When an operator interrupts the wait and
  stopping \<^verbatim>\<open>xwidth\<close> raises, \<^verbatim>\<open>ywidth\<close> is never stopped and the exception of the
  stop call leaves \<^verbatim>\<open>move\<close> in place of the interrupt.
\<close>

theorem move_interrupt_counterexample:
  "move interrupted_os (PyTuple [PyFloat 2, PyFloat 3]) True None PyNone =
     ([AxisMove XWIDTH (PyFloat 2) PyNone, AxisMove YWIDTH (PyFloat 3) PyNone,
       StatusWait (AndStatus (MoveStatus XWIDTH (PyFloat 2) PyNone)
                             (MoveStatus YWIDTH (PyFloat 3) PyNone))],
      Inl InterruptedError)
   \<and> AxisStop XWIDTH \<notin> set (fst (move interrupted_os (PyTuple [PyFloat 2, PyFloat 3]) True None PyNone))
   \<and> AxisStop YWIDTH \<notin> set (fst (move interrupted_os (PyTuple [PyFloat 2, PyFloat 3]) True None PyNone))
   \<and> move stop_fails (PyTuple [PyFloat 2, PyFloat 3]) True None PyNone =
       ([AxisMove XWIDTH (PyFloat 2) PyNone, AxisMove YWIDTH (PyFloat 3) PyNone,
         StatusWait (AndStatus (MoveStatus XWIDTH (PyFloat 2) PyNone)
                               (MoveStatus YWIDTH (PyFloat 3) PyNone)),
         AxisStop XWIDTH],
        Inl (OtherError ''stop failed''))
   \<and> AxisStop YWIDTH \<notin> set (fst (move stop_fails (PyTuple [PyFloat 2, PyFloat 3]) True None PyNone))
   \<and> snd (move stop_fails (PyTuple [PyFloat 2, PyFloat 3]) True None PyNone) \<noteq> Inl KeyboardInterrupt"
proof -
  have a: "move interrupted_os (PyTuple [PyFloat 2, PyFloat 3]) True None PyNone =
     ([AxisMove XWIDTH (PyFloat 2) PyNone, AxisMove YWIDTH (PyFloat 3) PyNone,
       StatusWait (AndStatus (MoveStatus XWIDTH (PyFloat 2) PyNone)
                             (MoveStatus YWIDTH (PyFloat 3) PyNone))],
      Inl InterruptedError)"
    by (simp add: move_def axis_move_def add_callback_def wait_or_stop_def status_wait_def
        interrupted_os_def quiet_def)
  have b: "move stop_fails (PyTuple [PyFloat 2, PyFloat 3]) True None PyNone =
       ([AxisMove XWIDTH (PyFloat 2) PyNone, AxisMove YWIDTH (PyFloat 3) PyNone,
         StatusWait (AndStatus (MoveStatus XWIDTH (PyFloat 2) PyNone)
                               (MoveStatus YWIDTH (PyFloat 3) PyNone)),
         AxisStop XWIDTH],
        Inl (OtherError ''stop failed''))"
    by (simp add: move_def axis_move_def add_callback_def wait_or_stop_def status_wait_def
        axis_stop_def stop_fails_def interrupted_def quiet_def)
  show ?thesis
    unfolding a b by simp
qed

lemma unpack_size_scalar: "\<not> is_tuple x \<Longrightarrow> unpack_size x = Inr (x, x)"
  by (cases x) simp_all

text \<open>
  C5. For a size that is not a tuple, \<^verbatim>\<open>move(x)\<close> does what \<^verbatim>\<open>move((x, x))\<close> does: the
  same calls in the same order and the same result, the first two calls being the move
  of \<^verbatim>\<open>xwidth\<close> to \<open>x\<close> and the move of \<^verbatim>\<open>ywidth\<close> to \<open>x\<close>.
\<close>

theorem move_scalar_is_square:
  assumes "\<not> is_tuple x"
  shows "move env x wait moved_cb timeout = move env (PyTuple [x, x]) wait moved_cb timeout
         \<and> (move_raises env XWIDTH x = None \<longrightarrow>
              take 2 (fst (move env x wait moved_cb timeout)) =
                [AxisMove XWIDTH x timeout, AxisMove YWIDTH x timeout])"
  using assms
  by (auto simp: move_def unpack_size_scalar axis_move_def seq_def split: option.splits prod.splits)

theorem move_scalar_is_square_witness:
  "\<not> is_tuple (PyFloat 5)
   \<and> move quiet (PyFloat 5) False None PyNone =
       move quiet (PyTuple [PyFloat 5, PyFloat 5]) False None PyNone
   \<and> move_raises quiet XWIDTH (PyFloat 5) = None
   \<and> take 2 (fst (move quiet (PyFloat 5) False None PyNone)) =
       [AxisMove XWIDTH (PyFloat 5) PyNone, AxisMove YWIDTH (PyFloat 5) PyNone]"
proof -
  have h: "\<not> is_tuple (PyFloat 5)"
    by simp
  have m: "move_raises quiet XWIDTH (PyFloat 5) = None"
    by (simp add: quiet_def)
  from move_scalar_is_square [OF h, of quiet False None PyNone] h m
  show ?thesis by blast
qed

section \<open>Removing\<close>

lemma move_first_action:
  assumes "unpack_size sz = Inr (w, h)"
  shows "hd (fst (move env sz wait moved_cb timeout)) = AxisMove XWIDTH w timeout"
  using assms
  by (auto simp: move_def axis_move_def seq_def split: option.splits prod.splits)

text \<open>
  \<^verbatim>\<open>remove\<close> is \<^verbatim>\<open>move\<close> with the given size when that size is truthy, and with the
  nominal aperture when no size is given; \<^verbatim>\<open>wait\<close>, \<^verbatim>\<open>timeout\<close> and the keyword
  arguments are forwarded unchanged.
\<close>

lemma remove_delegates_when_truthy:
  "(truthy sz \<longrightarrow> remove self env sz wait timeout kwargs = move env sz wait kwargs timeout)
   \<and> remove self env PyNone wait timeout kwargs =
       move env (nominal_aperture self) wait kwargs timeout
   \<and> (nominal_aperture self = PyTuple [nw, nh] \<longrightarrow>
        hd (fst (remove self env PyNone wait timeout kwargs)) = AxisMove XWIDTH nw timeout)"
  by (simp add: remove_def move_first_action)

text \<open>
  C6. \<^verbatim>\<open>remove\<close> is to move to the given size if one is supplied. On a device with
  the default nominal aperture \<^verbatim>\<open>remove(0.0)\<close> supplies a size, and the code moves both
  axes to 5.0, the nominal aperture, where \<^verbatim>\<open>move(0.0)\<close> moves them to 0.0.
\<close>

theorem remove_zero_size_moves_to_nominal:
  "remove (init None 1 1) quiet (PyFloat 0) False PyNone None =
     ([AxisMove XWIDTH (PyFloat 5) PyNone, AxisMove YWIDTH (PyFloat 5) PyNone],
      Inr (AndStatus (MoveStatus XWIDTH (PyFloat 5) PyNone)
                     (MoveStatus YWIDTH (PyFloat 5) PyNone)))
   \<and> move quiet (PyFloat 0) False None PyNone =
       ([AxisMove XWIDTH (PyFloat 0) PyNone, AxisMove YWIDTH (PyFloat 0) PyNone],
        Inr (AndStatus (MoveStatus XWIDTH (PyFloat 0) PyNone)
                       (MoveStatus YWIDTH (PyFloat 0) PyNone)))"
  by (simp add: remove_def init_def move_def axis_move_def add_callback_def quiet_def)

text \<open>
  C9. \<^verbatim>\<open>remove\<close> with the size \<open>0\<close> or \<open>0.0\<close>, and with any other falsy size, moves to the
  nominal aperture, not to the size given.
\<close>

theorem remove_falsy_size_moves_to_nominal:
  "remove self env (PyInt 0) wait timeout kwargs =
     move env (nominal_aperture self) wait kwargs timeout
   \<and> remove self env (PyFloat 0) wait timeout kwargs =
       move env (nominal_aperture self) wait kwargs timeout
   \<and> (\<not> truthy sz \<longrightarrow>
        remove self env sz wait timeout kwargs =
          move env (nominal_aperture self) wait kwargs timeout)"
  by (simp add: remove_def)

theorem remove_falsy_size_moves_to_nominal_witness:
  "\<not> truthy (PyFloat 0)
   \<and> remove (init None 1 1) quiet (PyFloat 0) False PyNone None =
       ([AxisMove XWIDTH (PyFloat 5) PyNone, AxisMove YWIDTH (PyFloat 5) PyNone],
        Inr (AndStatus (MoveStatus XWIDTH (PyFloat 5) PyNone)
                       (MoveStatus YWIDTH (PyFloat 5) PyNone)))"
  using remove_falsy_size_moves_to_nominal
          [of "init None 1 1" quiet False PyNone None "PyFloat 0"]
  by (simp add: init_def move_def axis_move_def add_callback_def quiet_def seq_def)

section \<open>Subscribing\<close>

lemma subscribe_flag: "has_subscribed (subscribe self cb event_type run)"
  by (simp add: subscribe_def generic_subscribe_def Let_def)

lemma subscribe_first:
  assumes "\<not> has_subscribed self"
  shows "xwidth_readback_subs (subscribe self cb event_type run) =
           xwidth_readback_subs self @ [(Aperture_changed, False)]"
    and "ywidth_readback_subs (subscribe self cb event_type run) =
           ywidth_readback_subs self @ [(Aperture_changed, False)]"
  using assms by (simp_all add: subscribe_def generic_subscribe_def Let_def)

lemma subscribe_later:
  assumes "has_subscribed self"
  shows "xwidth_readback_subs (subscribe self cb event_type run) = xwidth_readback_subs self"
    and "ywidth_readback_subs (subscribe self cb event_type run) = ywidth_readback_subs self"
  using assms by (simp_all add: subscribe_def generic_subscribe_def Let_def)

lemma subscribe_subs:
  "subs (subscribe self cb event_type run) =
     subs self @ [(case event_type of None \<Rightarrow> SUB_STATE | Some t \<Rightarrow> t, cb)]"
  by (simp add: subscribe_def generic_subscribe_def Let_def)

lemma subscribe_all_later:
  assumes "has_subscribed self"
  shows "has_subscribed (subscribe_all self calls)
         \<and> xwidth_readback_subs (subscribe_all self calls) = xwidth_readback_subs self
         \<and> ywidth_readback_subs (subscribe_all self calls) = ywidth_readback_subs self"
  using assms
proof (induction calls arbitrary: self)
  case Nil
  then show ?case by simp
next
  case (Cons c calls)
  obtain cb event_type run where c: "c = (cb, event_type, run)"
    by (cases c) auto
  have "has_subscribed (subscribe self cb event_type run)"
    by (rule subscribe_flag)
  from Cons.IH [OF this] Cons.prems show ?case
    by (simp add: c subscribe_later)
qed

lemma run_subs_append:
  "subs s' = subs s @ [(t, cb)] \<Longrightarrow>
   run_subs s' SUB_STATE = run_subs s SUB_STATE @ (if t = SUB_STATE then [cb] else [])"
  by (simp add: run_subs_def)

lemma subscribe_all_run_subs:
  "run_subs (subscribe_all self calls) SUB_STATE =
     run_subs self SUB_STATE @ state_callbacks calls"
proof (induction calls arbitrary: self)
  case Nil
  then show ?case by (simp add: state_callbacks_def)
next
  case (Cons c calls)
  obtain cb event_type run where c: "c = (cb, event_type, run)"
    by (cases c) auto
  have "run_subs (subscribe self cb event_type run) SUB_STATE =
          run_subs self SUB_STATE @ state_callbacks [c]"
    by (cases event_type)
       (auto simp: run_subs_append [OF subscribe_subs] state_callbacks_def c)
  moreover have "state_callbacks (c # calls) = state_callbacks [c] @ state_callbacks calls"
    by (simp add: state_callbacks_def)
  ultimately show ?case
    by (simp add: c Cons.IH)
qed

text \<open>
  C7, as amended. After any non-empty sequence of calls of \<^verbatim>\<open>subscribe\<close> on a fresh
  device the flag is set and each of the two width readbacks carries exactly one
  listener, attached with \<^verbatim>\<open>run=False\<close>; a change of either readback then invokes
  exactly the callbacks that were registered for the state event (no event type, or
  \<^verbatim>\<open>SUB_STATE\<close>), in the order of their registration.
\<close>

theorem subscribe_attaches_listener_once:
  assumes "calls \<noteq> []"
  shows "let s = subscribe_all (init nominal x y) calls
         in has_subscribed s
            \<and> xwidth_readback_subs s = [(Aperture_changed, False)]
            \<and> ywidth_readback_subs s = [(Aperture_changed, False)]
            \<and> readback_changed s XWIDTH = state_callbacks calls
            \<and> readback_changed s YWIDTH = state_callbacks calls"
proof -
  obtain cb event_type run rest where calls: "calls = (cb, event_type, run) # rest"
    using assms by (cases calls) auto
  define s1 where "s1 = subscribe (init nominal x y) cb event_type run"
  define s where "s = subscribe_all (init nominal x y) calls"
  have fresh: "\<not> has_subscribed (init nominal x y)"
    by (simp add: init_def)
  have s: "s = subscribe_all s1 rest"
    by (simp add: s_def s1_def calls)
  have flag1: "has_subscribed s1"
    unfolding s1_def by (rule subscribe_flag)
  have none: "xwidth_readback_subs (init nominal x y) = []"
             "ywidth_readback_subs (init nominal x y) = []"
    by (simp_all add: init_def)
  have x1: "xwidth_readback_subs s1 = [(Aperture_changed, False)]"
    unfolding s1_def using subscribe_first(1) [OF fresh] none by simp
  have y1: "ywidth_readback_subs s1 = [(Aperture_changed, False)]"
    unfolding s1_def using subscribe_first(2) [OF fresh] none by simp
  have later: "has_subscribed s \<and> xwidth_readback_subs s = [(Aperture_changed, False)]
               \<and> ywidth_readback_subs s = [(Aperture_changed, False)]"
    using subscribe_all_later [OF flag1, of rest] by (simp add: s x1 y1)
  have "run_subs (init nominal x y) SUB_STATE = []"
    by (simp add: run_subs_def init_def)
  then have fired: "aperture_changed s = state_callbacks calls"
    using subscribe_all_run_subs [of "init nominal x y" calls]
    by (simp add: aperture_changed_def s_def)
  have "readback_changed s XWIDTH = state_callbacks calls"
       "readback_changed s YWIDTH = state_callbacks calls"
    using later fired by (simp_all add: readback_changed_def)
  with later show ?thesis
    by (simp add: Let_def s_def)
qed

theorem subscribe_attaches_listener_once_witness:
  "[(1, None, True), (2, Some SUB_STATE, False)] \<noteq> ([] :: (callback \<times> string option \<times> bool) list)
   \<and> xwidth_readback_subs
        (subscribe_all (init None 1 1) [(1, None, True), (2, Some SUB_STATE, False)]) =
       [(Aperture_changed, False)]
   \<and> readback_changed
        (subscribe_all (init None 1 1) [(1, None, True), (2, Some SUB_STATE, False)]) XWIDTH =
       [1, 2]"
  using subscribe_attaches_listener_once
          [of "[(1, None, True), (2, Some SUB_STATE, False)]" None 1 1]
  by (simp add: Let_def state_callbacks_def)

text \<open>
  C7 as stated fails for a callback registered under another event type: it is not
  invoked by a change of the readback.
\<close>

theorem subscribe_other_event_counterexample:
  "7 \<notin> set (readback_changed
               (subscribe_all (init None 1 1) [(7, Some ''acq_done'', False)]) XWIDTH)"
  by (simp add: readback_changed_def aperture_changed_def run_subs_def subscribe_def
      generic_subscribe_def init_def SUB_STATE_def Let_def)

end
